theory Spec2Isabelle
  imports Main "HOL-Library.Word"
begin

unbundle bit_operations_syntax

section \<open>Python strings\<close>

text \<open>
  A \<open>str\<close> is a list of code points; the model keeps the code points below 256.
  \<open>str.split()\<close>, called without a separator, and \<open>str.strip()\<close> treat as white
  space exactly the code points for which \<open>str.isspace\<close> holds: TAB, LF, VT, FF, CR,
  the four separators FS, GS, RS, US, the space, NEL and the no-break space.
\<close>

definition py_isspace :: "char \<Rightarrow> bool" where
  "py_isspace c = (c \<in> {CHR 0x09, CHR 0x0A, CHR 0x0B, CHR 0x0C, CHR 0x0D,
                         CHR 0x1C, CHR 0x1D, CHR 0x1E, CHR 0x1F, CHR 0x20,
                         CHR 0x85, CHR 0xA0})"

text \<open>
  \<open>s.split()\<close>: scan left to right, \<open>cur\<close> is the word being read; a run of white
  space ends it, and empty words are never produced.
\<close>

fun split_from :: "string \<Rightarrow> string \<Rightarrow> string list" where
  "split_from cur [] = (if cur = [] then [] else [cur])"
| "split_from cur (c # cs) =
     (if py_isspace c
      then (if cur = [] then split_from [] cs else cur # split_from [] cs)
      else split_from (cur @ [c]) cs)"

definition py_split :: "string \<Rightarrow> string list" where
  "py_split s = split_from [] s"

text \<open>\<open>s.strip()\<close>: drop the white space at both ends.\<close>

definition py_strip :: "string \<Rightarrow> string" where
  "py_strip s = rev (dropWhile py_isspace (rev (dropWhile py_isspace s)))"

text \<open>\<open>sep.join(xs)\<close>.\<close>

fun py_join :: "string \<Rightarrow> string list \<Rightarrow> string" where
  "py_join sep [] = []"
| "py_join sep [x] = x"
| "py_join sep (x # y # ys) = x @ sep @ py_join sep (y # ys)"

text \<open>\<open>s[:n]\<close> and \<open>s[-n:]\<close> for a non-negative literal \<open>n\<close>.\<close>

definition py_prefix :: "nat \<Rightarrow> string \<Rightarrow> string" where
  "py_prefix n s = take n s"

definition py_suffix :: "nat \<Rightarrow> string \<Rightarrow> string" where
  "py_suffix n s = (if n = 0 then s else drop (length s - n) s)"

section \<open>Text layout\<close>

text \<open>
  A loaded font, as far as the layout reads it: \<open>getlength\<close> is the advance width of a
  string, already cut to an integer as \<open>_text_len\<close> does with \<open>int(...)\<close>, and
  \<open>line_height\<close> is the value of the local helper \<open>get_lh\<close>,
  \<open>int((ascent + descent) * LINE_HEIGHT_MULT)\<close>, which the source computes in floating
  point from the font's metrics.
\<close>

record font =
  getlength :: "string \<Rightarrow> int"
  line_height :: int

definition text_len :: "string \<Rightarrow> font \<Rightarrow> int" where
  "text_len text f = getlength f text"

text \<open>
  The loop of \<open>_wrap\<close> over \<open>words[1:]\<close>: \<open>lines\<close> are the finished lines, \<open>cur\<close>
  the line being filled; after the last word \<open>cur\<close> is appended.
\<close>

fun wrap_loop :: "font \<Rightarrow> int \<Rightarrow> string list \<Rightarrow> string \<Rightarrow> string list \<Rightarrow> string list" where
  "wrap_loop f max_px lines cur [] = lines @ [cur]"
| "wrap_loop f max_px lines cur (w # ws) =
     (if text_len (cur @ '' '' @ w) f \<le> max_px
      then wrap_loop f max_px lines (cur @ '' '' @ w) ws
      else wrap_loop f max_px (lines @ [cur]) w ws)"

definition wrap :: "string \<Rightarrow> font \<Rightarrow> int \<Rightarrow> string list" where
  "wrap text f max_px =
     (case py_split text of
        [] \<Rightarrow> [[]]
      | w # ws \<Rightarrow> wrap_loop f max_px [] w ws)"

text \<open>
  The property the layout is meant to give a line, read off a group \<open>g\<close> of words:
  the joined line fits, or the group is one word that is itself too wide.
\<close>

definition fits_or_lone :: "font \<Rightarrow> int \<Rightarrow> string list \<Rightarrow> bool" where
  "fits_or_lone f max_px g =
     (text_len (py_join '' '' g) f \<le> max_px \<or> (\<exists>w. g = [w] \<and> max_px < text_len w f))"

text \<open>A fixed-pitch font of 10 px per character, used to evaluate the layout.\<close>

definition mono_font :: font where
  "mono_font = \<lparr>getlength = (\<lambda>s. 10 * int (length s)), line_height = 12\<rparr>"

section \<open>Settings\<close>

text \<open>
  The values \<open>json.load\<close> produces. Numbers are the integers: no setting is a float,
  and the code never inspects a number.
\<close>

datatype json =
    JNull
  | JBool bool
  | JInt int
  | JStr string
  | JArr "json list"
  | JObj "(string \<times> json) list"

text \<open>Python's truth value of such a value, as \<open>if not ip\<close> tests it.\<close>

fun truthy :: "json \<Rightarrow> bool" where
  "truthy JNull = False"
| "truthy (JBool b) = b"
| "truthy (JInt i) = (i \<noteq> 0)"
| "truthy (JStr s) = (s \<noteq> [])"
| "truthy (JArr xs) = (xs \<noteq> [])"
| "truthy (JObj kvs) = (kvs \<noteq> [])"

type_synonym pydict = "string \<rightharpoonup> json"

text \<open>\<open>d.get(key, default)\<close>.\<close>

definition dict_get :: "pydict \<Rightarrow> string \<Rightarrow> json \<Rightarrow> json" where
  "dict_get d key dflt = (case d key of None \<Rightarrow> dflt | Some v \<Rightarrow> v)"

definition DEFAULT_SETTINGS :: pydict where
  "DEFAULT_SETTINGS = map_of
     [(''bulk_delimiter'', JStr ''::''),
      (''appearance_mode'', JStr ''System''),
      (''color_theme'', JStr ''blue''),
      (''font_family'', JStr ''Poppins''),
      (''printer_ip'', JStr []),
      (''mqtt_host'', JStr []),
      (''mqtt_port'', JInt 8883),
      (''mqtt_user'', JStr []),
      (''mqtt_pass'', JStr []),
      (''mqtt_topic'', JStr ''Prn20B1B50C2199''),
      (''mqtt_use_tls'', JBool True)]"

text \<open>
  \<open>printer_settings.json\<close> on disk: missing, present but failing to open or to parse,
  or holding a JSON object.
\<close>

datatype settings_file = NoFile | Unreadable | JsonObject pydict

text \<open>The module's global \<open>APP_SETTINGS\<close> and the file beside the program.\<close>

record app_state =
  APP_SETTINGS :: pydict
  SETTINGS_FILE :: settings_file

text \<open>
  \<open>load_settings\<close>: a copy of the defaults, updated with everything the file holds; an
  exception while reading is printed and leaves the defaults.
\<close>

definition load_settings :: "app_state \<Rightarrow> pydict \<times> app_state" where
  "load_settings st =
     (let defaults = DEFAULT_SETTINGS;
          defaults = (case SETTINGS_FILE st of
                        NoFile \<Rightarrow> defaults
                      | Unreadable \<Rightarrow> defaults
                      | JsonObject data \<Rightarrow> defaults ++ data)
      in (defaults, st\<lparr>APP_SETTINGS := defaults\<rparr>))"

text \<open>
  What opening the file for writing and \<open>json.dump\<close> do: succeed, fail at \<open>open\<close>
  with \<open>PermissionError\<close> or with another exception (the file is untouched), or fail
  inside \<open>json.dump\<close> after \<open>open\<close> has truncated the file.
\<close>

datatype write_outcome = Written | PermissionDenied | OpenFailed | DumpFailed

text \<open>
  \<open>save_settings\<close>: \<open>APP_SETTINGS.update(data)\<close> comes first, outside the
  \<open>try\<close>; the handlers only report and return \<open>False\<close>.
\<close>

definition save_settings :: "pydict \<Rightarrow> write_outcome \<Rightarrow> app_state \<Rightarrow> bool \<times> app_state" where
  "save_settings data outcome st =
     (let st1 = st\<lparr>APP_SETTINGS := APP_SETTINGS st ++ data\<rparr>
      in case outcome of
           Written \<Rightarrow> (True, st1\<lparr>SETTINGS_FILE := JsonObject (APP_SETTINGS st1)\<rparr>)
         | PermissionDenied \<Rightarrow> (False, st1)
         | OpenFailed \<Rightarrow> (False, st1)
         | DumpFailed \<Rightarrow> (False, st1\<lparr>SETTINGS_FILE := Unreadable\<rparr>))"

section \<open>Images\<close>

text \<open>
  A PIL image as far as the program reads it: the mode (\<open>"1"\<close>, one bit per pixel, or
  \<open>"L"\<close>, eight), the size, and the pixel values (0 is black, 255 is white; a
  \<open>"1"\<close> image holds only these two).
\<close>

datatype mode = Mode1 | ModeL

record image =
  img_mode :: mode
  img_width :: nat
  img_height :: nat
  img_pixel :: "nat \<Rightarrow> nat \<Rightarrow> nat"

text \<open>
  What the program asks of the imaging library and does not compute itself: the
  Floyd-Steinberg binarisation of the pixels of a \<open>w \<times> h\<close> image, Lanczos
  resampling to a new size, the bounding box \<open>_trim_whitespace\<close> crops to, and the new
  height \<open>int(h * (target / w))\<close>, which the source computes in floating point.
\<close>

record pil =
  floyd_steinberg :: "nat \<Rightarrow> nat \<Rightarrow> (nat \<Rightarrow> nat \<Rightarrow> nat) \<Rightarrow> (nat \<Rightarrow> nat \<Rightarrow> nat)"
  resize_lanczos :: "image \<Rightarrow> nat \<Rightarrow> nat \<Rightarrow> image"
  trim_whitespace :: "image \<Rightarrow> image"
  scaled_height :: "nat \<Rightarrow> nat \<Rightarrow> nat \<Rightarrow> nat"

text \<open>\<open>img.convert("1")\<close>: a copy of a \<open>"1"\<close> image, the dithered pixels otherwise.\<close>

definition convert_1 :: "pil \<Rightarrow> image \<Rightarrow> image" where
  "convert_1 lib img =
     (case img_mode img of
        Mode1 \<Rightarrow> img
      | ModeL \<Rightarrow> img\<lparr>img_mode := Mode1,
                      img_pixel := floyd_steinberg lib (img_width img) (img_height img)
                                     (img_pixel img)\<rparr>)"

text \<open>\<open>_apply_dither\<close>: to \<open>"L"\<close>, then to \<open>"1"\<close> with dithering.\<close>

definition apply_dither :: "pil \<Rightarrow> image \<Rightarrow> image" where
  "apply_dither lib img =
     img\<lparr>img_mode := Mode1,
         img_pixel := floyd_steinberg lib (img_width img) (img_height img) (img_pixel img)\<rparr>"

text \<open>\<open>render_composed_image\<close>: scale to the print width, then dither.\<close>

definition render_composed_image :: "pil \<Rightarrow> image \<Rightarrow> image" where
  "render_composed_image lib source_img =
     (let w = img_width source_img; h = img_height source_img;
          source_img = (if w \<noteq> 576
                        then resize_lanczos lib source_img 576 (scaled_height lib h 576 w)
                        else source_img)
      in apply_dither lib source_img)"

text \<open>
  \<open>img.tobytes(encoder_name="raw")\<close> of a \<open>"1"\<close> image: the rows from the top, each
  packed into \<open>ceil(w/8)\<close> bytes, the leftmost pixel in the most significant bit, a bit
  set where the pixel is not 0, the bits past the right edge clear.
\<close>

type_synonym byte = "8 word"

definition pack_byte :: "bool list \<Rightarrow> byte" where
  "pack_byte bits = foldl (\<lambda>acc b. 2 * acc + (if b then 1 else 0)) 0 bits"

definition row_byte :: "image \<Rightarrow> nat \<Rightarrow> nat \<Rightarrow> byte" where
  "row_byte img y bx =
     pack_byte (map (\<lambda>i. 8 * bx + i < img_width img \<and> img_pixel img (8 * bx + i) y \<noteq> 0)
                    [0..<8])"

definition tobytes_raw :: "image \<Rightarrow> byte list" where
  "tobytes_raw img =
     concat (map (\<lambda>y. map (row_byte img y) [0..<(img_width img + 7) div 8])
                 [0..<img_height img])"

section \<open>Exceptions\<close>

text \<open>The exceptions the modelled code raises or lets through; \<open>str(e)\<close> is \<open>exn_str\<close>.\<close>

datatype exn =
    OverflowError
  | TypeError
  | RuntimeError string
  | LibraryError string

fun exn_str :: "exn \<Rightarrow> string" where
  "exn_str OverflowError = ''int too big to convert''"
| "exn_str TypeError = ''getaddrinfo() argument 1 must be string or None''"
| "exn_str (RuntimeError msg) = msg"
| "exn_str (LibraryError msg) = msg"

section \<open>Protocol encoder\<close>

text \<open>\<open>n.to_bytes(2, 'little')\<close>: \<open>OverflowError\<close> when \<open>n\<close> needs more than 16 bits.\<close>

definition to_bytes_2_little :: "nat \<Rightarrow> exn + byte list" where
  "to_bytes_2_little n =
     (if n < 65536 then Inr [of_nat (n mod 256), of_nat (n div 256)] else Inl OverflowError)"

text \<open>\<open>~b & 0xFF\<close> on the integer value of a byte.\<close>

definition invert_byte :: "byte \<Rightarrow> byte" where
  "invert_byte b = word_of_int ((NOT (uint b)) AND 255)"

definition pil_to_escpos_raster :: "pil \<Rightarrow> image \<Rightarrow> exn + byte list" where
  "pil_to_escpos_raster lib img0 =
     (let img = convert_1 lib img0;
          w = img_width img; h = img_height img;
          w_bytes = (w + 7) div 8
      in case to_bytes_2_little w_bytes of
           Inl e \<Rightarrow> Inl e
         | Inr wb \<Rightarrow>
             (case to_bytes_2_little h of
                Inl e \<Rightarrow> Inl e
              | Inr hb \<Rightarrow>
                  (let cmd = [0x1d, 0x76, 0x30, 0x00] @ wb @ hb;
                       data = tobytes_raw img;
                       inverted_data = map invert_byte data
                   in Inr (cmd @ inverted_data))))"

text \<open>\<open>Image.new("1", (w, h), 0)\<close>: the all-black image.\<close>

definition black_image :: "nat \<Rightarrow> nat \<Rightarrow> image" where
  "black_image w h = \<lparr>img_mode = Mode1, img_width = w, img_height = h, img_pixel = (\<lambda>x y. 0)\<rparr>"

text \<open>A stand-in for the library on small examples: threshold at 128, no resampling.\<close>

definition plain_pil :: pil where
  "plain_pil = \<lparr>floyd_steinberg = (\<lambda>w h px x y. if px x y < 128 then 0 else 255),
                resize_lanczos = (\<lambda>img w h. img\<lparr>img_width := w, img_height := h\<rparr>),
                trim_whitespace = (\<lambda>img. img),
                scaled_height = (\<lambda>h target w. (h * target) div w)\<rparr>"

section \<open>Receipt rasterizer\<close>

definition PRINT_WIDTH_PX :: int where "PRINT_WIDTH_PX = 576"
definition MARGIN_T :: int where "MARGIN_T = 28"
definition MARGIN_B :: int where "MARGIN_B = 40"
definition MARGIN_L :: int where "MARGIN_L = 18"
definition MARGIN_R :: int where "MARGIN_R = 18"

text \<open>The three fonts the module loads at start-up.\<close>

record fonts =
  FONT_TITLE :: font
  FONT_TEXT :: font
  FONT_TIME :: font

datatype font_role = TitleFont | TextFont | TimeFont

text \<open>
  A white \<open>"L"\<close> image made by \<open>Image.new\<close> and drawn on: its size and, in order,
  what was drawn. Turning glyphs into pixels is the library's work.
\<close>

datatype draw_op =
    DrawText int int string font_role
  | Paste image int int

record canvas =
  cv_width :: int
  cv_height :: int
  cv_ops :: "draw_op list"

text \<open>The clock, and \<open>strftime("%Y-%m-%d %H:%M")\<close>.\<close>

record datetime =
  dt_year :: nat
  dt_month :: nat
  dt_day :: nat
  dt_hour :: nat
  dt_minute :: nat

definition digit :: "nat \<Rightarrow> char" where
  "digit d = ''0123456789'' ! (d mod 10)"

fun zero_pad :: "nat \<Rightarrow> nat \<Rightarrow> string" where
  "zero_pad 0 n = []"
| "zero_pad (Suc k) n = zero_pad k (n div 10) @ [digit n]"

definition strftime_ymd_hm :: "datetime \<Rightarrow> string" where
  "strftime_ymd_hm dt =
     zero_pad 4 (dt_year dt) @ ''-'' @ zero_pad 2 (dt_month dt) @ ''-'' @ zero_pad 2 (dt_day dt) @
     '' '' @ zero_pad 2 (dt_hour dt) @ '':'' @ zero_pad 2 (dt_minute dt)"

text \<open>A loop \<open>for ln in lines: draw.text((MARGIN_L, y), ln, ...); y += lh\<close>.\<close>

fun draw_lines :: "font_role \<Rightarrow> int \<Rightarrow> int \<Rightarrow> string list \<Rightarrow> draw_op list \<times> int" where
  "draw_lines role lh y [] = ([], y)"
| "draw_lines role lh y (ln # lns) =
     (let (ops, y') = draw_lines role lh (y + lh) lns
      in (DrawText MARGIN_L y ln role # ops, y'))"

definition render_receipt_image ::
  "fonts \<Rightarrow> datetime \<Rightarrow> string \<Rightarrow> string list \<Rightarrow> bool \<Rightarrow> canvas" where
  "render_receipt_image fs now title body_lines add_dt =
     (let max_w = PRINT_WIDTH_PX - MARGIN_L - MARGIN_R;
          wrapped_title = (if title \<noteq> [] \<and> py_strip title \<noteq> []
                           then wrap (py_strip title) (FONT_TITLE fs) max_w else []);
          wrapped_body = concat (map (\<lambda>line. wrap line (FONT_TEXT fs) max_w) body_lines);
          time_str = (if add_dt then Some (strftime_ymd_hm now) else None);
          lh_title = line_height (FONT_TITLE fs);
          lh_text = line_height (FONT_TEXT fs);
          lh_time = line_height (FONT_TIME fs);
          h = MARGIN_T;
          h = (if wrapped_title \<noteq> [] then h + int (length wrapped_title) * lh_title + 10 else h);
          h = (if time_str \<noteq> None \<and> time_str \<noteq> Some [] then h + lh_time else h);
          h = (if wrapped_body \<noteq> [] then h + int (length wrapped_body) * lh_text else h);
          h = h + MARGIN_B;
          h = max h 100;
          y = MARGIN_T;
          (ops_title, y) = draw_lines TitleFont lh_title y wrapped_title;
          y = (if wrapped_title \<noteq> [] then y + 10 else y);
          (ops_time, y) = (case time_str of
                             None \<Rightarrow> ([], y)
                           | Some s \<Rightarrow> if s \<noteq> [] then ([DrawText MARGIN_L y s TimeFont], y + lh_time)
                                       else ([], y));
          (ops_body, y) = draw_lines TextFont lh_text y wrapped_body
      in \<lparr>cv_width = PRINT_WIDTH_PX, cv_height = h, cv_ops = ops_title @ ops_time @ ops_body\<rparr>)"

text \<open>Three copies of the fixed-pitch font, and a clock reading, for evaluation.\<close>

definition mono_fonts :: fonts where
  "mono_fonts = \<lparr>FONT_TITLE = mono_font, FONT_TEXT = mono_font, FONT_TIME = mono_font\<rparr>"

definition noon :: datetime where
  "noon = \<lparr>dt_year = 2024, dt_month = 5, dt_day = 17, dt_hour = 12, dt_minute = 0\<rparr>"

section \<open>Delivery\<close>

definition PRINTER_PORT :: nat where "PRINTER_PORT = 9100"

text \<open>
  What delivery does to the network, in order: the TCP socket of the local path and the
  broker session of the cloud path (\<open>MqttConnect host port use_tls credentials\<close>).
\<close>

datatype event =
    SockConnect string nat
  | SockSendall "byte list"
  | SockClose
  | MqttConnect json json bool "(json \<times> json) option"
  | MqttPublish json "(string \<times> json) list"
  | MqttLoop
  | MqttDisconnect

fun is_mqtt :: "event \<Rightarrow> bool" where
  "is_mqtt (SockConnect ip port) = False"
| "is_mqtt (SockSendall bs) = False"
| "is_mqtt SockClose = False"
| "is_mqtt (MqttConnect host port tls cred) = True"
| "is_mqtt (MqttPublish topic payload) = True"
| "is_mqtt MqttLoop = True"
| "is_mqtt MqttDisconnect = True"

text \<open>
  What \<open>socket.create_connection\<close> does with an address: return a socket, raise
  \<open>OSError\<close> (refused, unreachable, timed out, unknown host), or raise something else,
  as the \<open>UnicodeError\<close> of a host name with an empty or over-long label.
\<close>

datatype connect_outcome = Connected | ConnectOSError | ConnectRaises exn

text \<open>
  The world a delivery meets. \<open>lan_connect ip\<close>: the outcome of
  \<open>socket.create_connection\<close> to that address; \<open>lan_accepts\<close>: \<open>sendall\<close>
  succeeds (\<open>OSError\<close> otherwise); \<open>paho_installed\<close>: the MQTT client library
  imports; \<open>png_base64 img\<close>: the base64 text of the PNG of \<open>_apply_dither(img)\<close>, or
  the exception that dithering or saving raises; \<open>mqtt_client use_tls credentials\<close>:
  the exception, if any, raised by \<open>mqtt.Client\<close>, \<open>tls_set\<close> or
  \<open>username_pw_set\<close>; \<open>broker_connects\<close>, \<open>broker_publishes\<close>,
  \<open>broker_closes\<close>: \<open>connect\<close>, \<open>publish\<close>, and \<open>loop\<close> with
  \<open>disconnect\<close> return without an exception; \<open>unix_time\<close> is the clock.
\<close>

record net =
  lan_connect :: "string \<Rightarrow> connect_outcome"
  lan_accepts :: bool
  paho_installed :: bool
  png_base64 :: "image \<Rightarrow> exn + string"
  mqtt_client :: "bool \<Rightarrow> (json \<times> json) option \<Rightarrow> exn option"
  broker_connects :: "json \<Rightarrow> json \<Rightarrow> bool"
  broker_publishes :: bool
  broker_closes :: bool
  unix_time :: nat

text \<open>\<open>str(n)\<close> of a natural number.\<close>

function decimal :: "nat \<Rightarrow> string" where
  "decimal n = (if n < 10 then [digit n] else decimal (n div 10) @ [digit n])"
  by pat_completeness auto
termination
proof (relation "measure id")
  show "wf (measure id)" by simp
next
  fix n :: nat
  assume "\<not> n < 10"
  then have "n div 10 < n" by (intro div_less_dividend) simp_all
  then show "(n div 10, n) \<in> measure id" by simp
qed

declare decimal.simps [simp del]

text \<open>
  \<open>send_lan_image\<close>. Only \<open>OSError\<close> is caught: an address that is not a string
  makes \<open>create_connection\<close> raise \<open>TypeError\<close>, a malformed one makes it raise
  what \<open>lan_connect\<close> says, and the encoder's \<open>OverflowError\<close> arises after the
  socket is open; all of these leave the function as exceptions.
\<close>

definition send_lan_image ::
  "pil \<Rightarrow> net \<Rightarrow> pydict \<Rightarrow> image \<Rightarrow> bool \<Rightarrow> event list \<Rightarrow> (exn + bool) \<times> event list" where
  "send_lan_image lib nw settings img do_cut tr =
     (let ip = dict_get settings ''printer_ip'' (JStr [])
      in if \<not> truthy ip then (Inr False, tr)
         else case ip of
                JStr addr \<Rightarrow>
                  (let tr = tr @ [SockConnect addr PRINTER_PORT]
                   in case lan_connect nw addr of
                        ConnectOSError \<Rightarrow> (Inr False, tr)
                      | ConnectRaises e \<Rightarrow> (Inl e, tr)
                      | Connected \<Rightarrow>
                          (case pil_to_escpos_raster lib img of
                             Inl e \<Rightarrow> (Inl e, tr)
                           | Inr raster \<Rightarrow>
                               (let commands = [0x1b, 0x40] @ raster @ replicate 4 0x0a;
                                    commands = (if do_cut then commands @ [0x1d, 0x56, 0x00]
                                                else commands);
                                    tr = tr @ [SockSendall commands]
                                in if \<not> lan_accepts nw then (Inr False, tr)
                                   else (Inr True, tr @ [SockClose]))))
              | _ \<Rightarrow> (Inl TypeError, tr))"

text \<open>
  \<open>send_mqtt_image\<close>. The image is dithered and encoded and the client is built and
  configured before the \<open>try\<close>, so an exception there leaves the function; everything
  from \<open>connect\<close> on is inside \<open>try ... except Exception\<close>.
\<close>

definition send_mqtt_image ::
  "pil \<Rightarrow> net \<Rightarrow> pydict \<Rightarrow> image \<Rightarrow> bool \<Rightarrow> event list \<Rightarrow> (exn + bool) \<times> event list" where
  "send_mqtt_image lib nw settings img do_cut tr =
     (let host = dict_get settings ''mqtt_host'' (JStr [])
      in if \<not> truthy host then (Inr False, tr)
         else if \<not> paho_installed nw then (Inr False, tr)
         else case png_base64 nw img of
                Inl e \<Rightarrow> (Inl e, tr)
              | Inr b64_data \<Rightarrow>
           (let use_tls = truthy (dict_get settings ''mqtt_use_tls'' (JBool True));
                user = dict_get settings ''mqtt_user'' (JStr []);
                pw = dict_get settings ''mqtt_pass'' (JStr []);
                cred = (if truthy user then Some (user, pw) else None)
            in case mqtt_client nw use_tls cred of
                 Some e \<Rightarrow> (Inl e, tr)
               | None \<Rightarrow>
           (let port = dict_get settings ''mqtt_port'' (JInt 8883);
                tr = tr @ [MqttConnect host port use_tls cred]
            in if \<not> broker_connects nw host port then (Inr False, tr)
               else
                 (let payload = [(''ticket_id'', JStr (''desk-'' @ decimal (unix_time nw))),
                                 (''data_type'', JStr ''png''),
                                 (''data_base64'', JStr b64_data),
                                 (''cut_paper'', JInt (if do_cut then 1 else 0)),
                                 (''source'', JStr ''Modern_Desktop'')];
                      topic = dict_get settings ''mqtt_topic'' (JStr ''Prn20B1B50C2199'');
                      tr = tr @ [MqttPublish topic payload]
                  in if \<not> broker_publishes nw then (Inr False, tr)
                     else (let tr = tr @ [MqttLoop, MqttDisconnect]
                           in if \<not> broker_closes nw then (Inr False, tr)
                              else (Inr True, tr))))))"

definition print_master ::
  "pil \<Rightarrow> net \<Rightarrow> pydict \<Rightarrow> image \<Rightarrow> bool \<Rightarrow> event list \<Rightarrow> (exn + string) \<times> event list" where
  "print_master lib nw settings img do_cut tr =
     (case send_lan_image lib nw settings img do_cut tr of
        (Inl e, tr) \<Rightarrow> (Inl e, tr)
      | (Inr res_lan, tr) \<Rightarrow>
          if res_lan then (Inr ''OK (LAN)'', tr)
          else (case send_mqtt_image lib nw settings img do_cut tr of
                  (Inl e, tr) \<Rightarrow> (Inl e, tr)
                | (Inr res_mqtt, tr) \<Rightarrow>
                    if res_mqtt then (Inr ''OK (Cloud)'', tr)
                    else (Inr ''Failed (Check Settings)'', tr)))"

text \<open>A network where the printer and the broker both answer, for evaluation.\<close>

definition net_up :: net where
  "net_up = \<lparr>lan_connect = (\<lambda>ip. Connected), lan_accepts = True, paho_installed = True,
             png_base64 = (\<lambda>img. Inr ''iVBORw0KGgo=''), mqtt_client = (\<lambda>tls cred. None),
             broker_connects = (\<lambda>host port. True), broker_publishes = True,
             broker_closes = True, unix_time = 7\<rparr>"

text \<open>The same network with the printer switched off.\<close>

definition net_cloud_only :: net where
  "net_cloud_only = net_up\<lparr>lan_connect := (\<lambda>ip. ConnectOSError)\<rparr>"

text \<open>
  The same network where resolving a host name with an empty label raises
  \<open>UnicodeError\<close>, and one where saving the image as PNG raises.
\<close>

definition net_bad_label :: net where
  "net_bad_label =
     net_up\<lparr>lan_connect := (\<lambda>ip. if ip = ''192.168..1''
                                  then ConnectRaises (LibraryError
                                         ''encoding with idna codec failed'')
                                  else Connected)\<rparr>"

definition net_png_fails :: net where
  "net_png_fails =
     net_cloud_only\<lparr>png_base64 := (\<lambda>img. Inl (LibraryError
                                                ''tile cannot extend outside image''))\<rparr>"

section \<open>LaTeX engine\<close>

text \<open>A string that starts with a backslash, and \<open>needle in haystack\<close>.\<close>

definition bs :: "string \<Rightarrow> string" where
  "bs s = CHR 0x5C # s"

fun py_in :: "string \<Rightarrow> string \<Rightarrow> bool" where
  "py_in needle [] = (needle = [])"
| "py_in needle (c # cs) = (take (length needle) (c # cs) = needle \<or> py_in needle cs)"

text \<open>The document template, around the \<open>%s\<close> that receives the content.\<close>

definition TEX_HEAD :: "string list" where
  "TEX_HEAD =
     [[],
      bs ''documentclass[11pt]{article}'',
      bs ''usepackage[utf8]{inputenc}'',
      bs ''usepackage[T1]{fontenc}'',
      bs ''usepackage[ngerman]{babel}'',
      bs ''usepackage{amsmath}'',
      bs ''usepackage{amssymb}'',
      bs ''usepackage{amsfonts}'',
      bs ''usepackage{mathtools}'',
      bs ''usepackage{physics}'',
      bs ''usepackage{siunitx}'',
      bs ''usepackage{bm}'',
      bs ''usepackage{upgreek}'',
      bs ''usepackage{pifont}'',
      bs ''usepackage{graphicx}'',
      bs ''usepackage{enumitem}'',
      bs ''usepackage{geometry}'',
      bs ''usepackage{tikz}          '',
      bs ''usepackage{pgfplots}'',
      bs ''usepackage{circuitikz} '',
      bs ''usepackage{chemfig}     '',
      bs ''usepackage{listings}    '',
      bs ''usepackage{xcolor}      '',
      bs ''usepackage{booktabs}    '',
      bs ''usepackage{tabularx}    '',
      bs ''usepackage{eurosym}     '',
      bs ''usetikzlibrary{patterns,decorations.pathmorphing,decorations.markings,calc}'',
      bs ''pgfplotsset{compat=1.18}'',
      bs ''geometry{paperwidth=80mm, paperheight=2000mm, left=2mm, right=2mm, top=2mm, bottom=2mm}'',
      bs ''renewcommand{'' @ bs ''familydefault}{'' @ bs ''sfdefault}'',
      bs ''setlength{'' @ bs ''parindent}{0pt}'',
      bs ''setlength{'' @ bs ''parskip}{0.5em}'',
      bs ''begin{document}'']"

definition TEX_TAIL :: "string list" where
  "TEX_TAIL =
     [bs ''end{document}'',
      []]"

definition tex_template :: "string \<Rightarrow> string" where
  "tex_template content = py_join [CHR 0x0A] (TEX_HEAD @ [content] @ TEX_TAIL)"

text \<open>
  One run of the compiler under \<open>subprocess.run(..., check=True)\<close>: exit status 0; a
  non-zero status (\<open>CalledProcessError\<close>) with what can then be read of
  \<open>ticket.log\<close>, if anything; or no such program (\<open>FileNotFoundError\<close>).
\<close>

datatype run_outcome = Exit0 | ExitNonzero "string option" | NotFound

text \<open>What a render does outside the process: the workspace and the commands it runs.\<close>

datatype tex_event =
    MkDTemp
  | WriteTex string
  | RunCmd "string list"
  | ConvertPdf
  | RmTree

text \<open>
  The toolchain a render meets: whether \<open>pdf2image\<close> imports, whether
  \<open>pdflatex --version\<close> starts and whether \<open>shutil.which\<close> finds the compiler, the
  outcome of the \<open>n\<close>-th command run in a render (counted from 0), the pages
  \<open>convert_from_path\<close> returns or the exception it raises, whether \<open>matplotlib\<close>
  imports, and what the fallback figure of a source comes to (the textual clean-up and
  the plot, an image or an exception).
\<close>

record tex_env =
  pdf2image_importable :: bool
  pdflatex_version_runs :: bool
  pdflatex_on_path :: bool
  command_run :: "nat \<Rightarrow> run_outcome"
  pdf_pages :: "exn + image list"
  matplotlib_importable :: bool
  matplotlib_figure :: "string \<Rightarrow> exn + image"

fun is_run :: "tex_event \<Rightarrow> bool" where
  "is_run (RunCmd cmd) = True"
| "is_run MkDTemp = False"
| "is_run (WriteTex src) = False"
| "is_run ConvertPdf = False"
| "is_run RmTree = False"

definition check_pdflatex :: "tex_env \<Rightarrow> bool" where
  "check_pdflatex env = (if pdflatex_version_runs env then True else pdflatex_on_path env)"

text \<open>
  \<open>render_with_pdflatex\<close>: one compilation; every failure is raised, and the
  \<open>finally\<close> clause removes the workspace on each path that created it.
\<close>

definition render_with_pdflatex ::
  "pil \<Rightarrow> tex_env \<Rightarrow> string \<Rightarrow> tex_event list \<Rightarrow> (exn + image) \<times> tex_event list" where
  "render_with_pdflatex lib env latex_code tr =
     (if \<not> pdf2image_importable env
      then (Inl (RuntimeError ''pdf2image library is missing.''), tr)
      else
        (let is_full_doc = (py_in (bs ''begin{document}'') latex_code \<or>
                            py_in (bs ''section'') latex_code);
             content = latex_code;
             content = (if \<not> is_full_doc \<and>
                           \<not> (py_in (bs ''begin{tikzpicture}'') content \<or>
                              py_in ''$$'' content \<or> py_in (bs ''['') content)
                        then bs ''[ '' @ content @ '' '' @ bs '']'' else content);
             tr = tr @ [MkDTemp, WriteTex (tex_template content)];
             outcome = command_run env (length (filter is_run tr));
             tr = tr @ [RunCmd [''pdflatex'', ''-interaction=nonstopmode'', ''ticket.tex'']]
         in case outcome of
              ExitNonzero log \<Rightarrow>
                (let log_content = (case log of None \<Rightarrow> ''No log found.'' | Some l \<Rightarrow> l)
                 in (Inl (RuntimeError (''LaTeX Error. Check syntax.'' @ [CHR 0x0A] @
                                        py_suffix 500 log_content)),
                     tr @ [RmTree]))
            | NotFound \<Rightarrow>
                (Inl (RuntimeError
                        ''LaTeX (pdflatex) not found. Please install MiKTeX or TeX Live.''),
                 tr @ [RmTree])
            | Exit0 \<Rightarrow>
                (case pdf_pages env of
                   Inl e \<Rightarrow> (Inl e, tr @ [ConvertPdf, RmTree])
                 | Inr [] \<Rightarrow>
                     (Inl (RuntimeError ''Could not convert PDF to image.''),
                      tr @ [ConvertPdf, RmTree])
                 | Inr (page # rest) \<Rightarrow>
                     (Inr (trim_whitespace lib page), tr @ [ConvertPdf, RmTree]))))"

text \<open>What \<open>render_latex_image\<close> hands back: a drawn canvas or a dithered bitmap.\<close>

datatype picture = Drawn canvas | Bitmap image

fun is_drawn :: "picture \<Rightarrow> bool" where
  "is_drawn (Drawn c) = True"
| "is_drawn (Bitmap b) = False"

text \<open>
  \<open>render_matplotlib_fallback\<close>: a fixed message when \<open>matplotlib\<close> is missing;
  otherwise the figure of the source, scaled and dithered. Nothing here is inside a
  \<open>try\<close>.
\<close>

definition render_matplotlib_fallback ::
  "pil \<Rightarrow> tex_env \<Rightarrow> fonts \<Rightarrow> datetime \<Rightarrow> string \<Rightarrow> string \<Rightarrow> bool \<Rightarrow> exn + picture" where
  "render_matplotlib_fallback lib env fs now latex_code title add_dt =
     (if \<not> matplotlib_importable env
      then Inr (Drawn (render_receipt_image fs now ''Error''
                         [''No LaTeX Engine & no Matplotlib found.''] False))
      else case matplotlib_figure env latex_code of
             Inl e \<Rightarrow> Inl e
           | Inr img \<Rightarrow> Inr (Bitmap (render_composed_image lib img)))"

definition render_latex_image ::
  "pil \<Rightarrow> tex_env \<Rightarrow> fonts \<Rightarrow> datetime \<Rightarrow> string \<Rightarrow> string \<Rightarrow> bool \<Rightarrow> tex_event list \<Rightarrow>
     (exn + picture) \<times> tex_event list" where
  "render_latex_image lib env fs now latex_code title add_dt tr =
     (let has_pdf2image = pdf2image_importable env;
          has_pdflatex = check_pdflatex env
      in if has_pdf2image \<and> has_pdflatex
         then (case render_with_pdflatex lib env latex_code tr of
                 (Inr latex_img, tr) \<Rightarrow>
                   (let w = img_width latex_img; h = img_height latex_img;
                        max_w = nat (PRINT_WIDTH_PX - MARGIN_L - MARGIN_R);
                        latex_img = (if w > max_w
                                     then resize_lanczos lib latex_img max_w
                                            (scaled_height lib h max_w w)
                                     else latex_img);
                        header_h = MARGIN_T;
                        header_h = (if title \<noteq> [] then header_h + 50 else header_h);
                        header_h = (if add_dt then header_h + 30 else header_h);
                        final_h = header_h + int (img_height latex_img) + MARGIN_B;
                        current_y = MARGIN_T;
                        (ops_title, current_y) =
                           (if title \<noteq> []
                            then ([DrawText MARGIN_L current_y title TitleFont], current_y + 50)
                            else ([], current_y));
                        (ops_time, current_y) =
                           (if add_dt
                            then ([DrawText MARGIN_L current_y (strftime_ymd_hm now) TimeFont],
                                  current_y + 30)
                            else ([], current_y));
                        x_pos = (PRINT_WIDTH_PX - int (img_width latex_img)) div 2
                    in (Inr (Drawn \<lparr>cv_width = PRINT_WIDTH_PX, cv_height = final_h,
                                     cv_ops = ops_title @ ops_time @
                                              [Paste latex_img x_pos current_y]\<rparr>),
                        tr))
               | (Inl e, tr) \<Rightarrow>
                   (Inr (Drawn (render_receipt_image fs now ''LaTeX Error''
                                  [py_prefix 300 (exn_str e)] False)),
                    tr))
         else (render_matplotlib_fallback lib env fs now latex_code title add_dt, tr))"

text \<open>
  The log line of a missing package, and toolchains for evaluation: one whose first
  compilation stops on that line while every later command succeeds, and one with no
  compiler where the fallback figure is an \<open>8 \<times> 8\<close> black square.
\<close>

definition missing_sty_log :: string where
  "missing_sty_log = ''! LaTeX Error: File `tcolorbox.sty'' @ [CHR 0x27] @ '' not found''"

definition env_missing_package :: tex_env where
  "env_missing_package =
     \<lparr>pdf2image_importable = True, pdflatex_version_runs = True, pdflatex_on_path = True,
      command_run = (\<lambda>n. if n = 0 then ExitNonzero (Some missing_sty_log) else Exit0),
      pdf_pages = Inr [black_image 8 8],
      matplotlib_importable = True,
      matplotlib_figure = (\<lambda>src. Inr (black_image 8 8))\<rparr>"

definition env_no_compiler :: tex_env where
  "env_no_compiler =
     env_missing_package\<lparr>pdflatex_version_runs := False, pdflatex_on_path := False,
                         command_run := (\<lambda>n. NotFound)\<rparr>"

section \<open>Example settings\<close>

text \<open>A settings file with a printer address and a key the program does not know.\<close>

definition file_with_unknown_key :: app_state where
  "file_with_unknown_key =
     \<lparr>APP_SETTINGS = Map.empty,
      SETTINGS_FILE = JsonObject (map_of [(''printer_ip'', JStr ''10.0.0.5''),
                                          (''debug'', JBool True)])\<rparr>"

text \<open>Memory and file in step, both holding the defaults.\<close>

definition fresh_state :: app_state where
  "fresh_state = \<lparr>APP_SETTINGS = DEFAULT_SETTINGS, SETTINGS_FILE = JsonObject DEFAULT_SETTINGS\<rparr>"

text \<open>Settings with a printer address only, and with a printer address and a broker.\<close>

definition lan_settings :: pydict where
  "lan_settings = DEFAULT_SETTINGS(''printer_ip'' \<mapsto> JStr ''192.168.1.50'')"

definition lan_and_cloud_settings :: pydict where
  "lan_and_cloud_settings = lan_settings(''mqtt_host'' \<mapsto> JStr ''broker.example'')"

text \<open>Settings whose printer address has an empty label.\<close>

definition bad_label_settings :: pydict where
  "bad_label_settings = DEFAULT_SETTINGS(''printer_ip'' \<mapsto> JStr ''192.168..1'')"

section \<open>Verified properties\<close>

subsection \<open>Text layout\<close>

lemma split_from_words:
  "\<forall>c\<in>set cur. \<not> py_isspace c \<Longrightarrow> w \<in> set (split_from cur s) \<Longrightarrow>
     w \<noteq> [] \<and> (\<forall>c\<in>set w. \<not> py_isspace c)"
proof (induction s arbitrary: cur)
  case Nil
  then show ?case by (auto split: if_splits)
next
  case (Cons c cs)
  show ?case
  proof (cases "py_isspace c")
    case True
    with Cons.prems have "w = cur \<and> cur \<noteq> [] \<or> w \<in> set (split_from [] cs)"
      by (auto split: if_splits)
    then show ?thesis using Cons.IH [of "[]"] Cons.prems(1) by auto
  next
    case False
    with Cons.prems have "w \<in> set (split_from (cur @ [c]) cs)" by simp
    moreover have "\<forall>d\<in>set (cur @ [c]). \<not> py_isspace d" using Cons.prems(1) False by simp
    ultimately show ?thesis using Cons.IH [of "cur @ [c]"] by blast
  qed
qed

lemma split_from_word:
  "\<forall>c\<in>set w. \<not> py_isspace c \<Longrightarrow> split_from cur (w @ rest) = split_from (cur @ w) rest"
  by (induction w arbitrary: cur) auto

lemma isspace_blank: "py_isspace CHR '' ''"
  by (simp add: py_isspace_def)

lemma split_from_join:
  "\<forall>w\<in>set ws. w \<noteq> [] \<and> (\<forall>c\<in>set w. \<not> py_isspace c) \<Longrightarrow>
     split_from [] (py_join '' '' ws) = ws"
proof (induction "'' ''" ws rule: py_join.induct)
  case 1
  then show ?case by simp
next
  case (2 x)
  then show ?case using split_from_word [of x "[]" "[]"] by simp
next
  case (3 x y ys)
  have "split_from [] (x @ '' '' @ py_join '' '' (y # ys)) =
        split_from x ('' '' @ py_join '' '' (y # ys))"
    using split_from_word [of x "[]"] 3(2) by simp
  also have "\<dots> = x # split_from [] (py_join '' '' (y # ys))"
    using 3(2) by (simp add: isspace_blank)
  finally show ?case using 3 by simp
qed

lemma join_snoc: "g \<noteq> [] \<Longrightarrow> py_join sep (g @ [w]) = py_join sep g @ sep @ w"
  by (induction sep g rule: py_join.induct) auto

lemma join_append:
  "xs \<noteq> [] \<Longrightarrow> ys \<noteq> [] \<Longrightarrow> py_join sep (xs @ ys) = py_join sep xs @ sep @ py_join sep ys"
proof (induction sep xs rule: py_join.induct)
  case (2 sep x)
  then show ?case by (cases ys) auto
qed auto

lemma join_concat:
  "[] \<notin> set gs \<Longrightarrow> py_join sep (map (py_join sep) gs) = py_join sep (concat gs)"
proof (induction gs)
  case Nil
  then show ?case by simp
next
  case (Cons g gs)
  show ?case
  proof (cases gs)
    case Nil
    then show ?thesis by simp
  next
    case (Cons h hs)
    with Cons.prems have ne: "g \<noteq> []" "concat gs \<noteq> []" by auto
    have "py_join sep (map (py_join sep) (g # gs)) =
          py_join sep g @ sep @ py_join sep (map (py_join sep) gs)"
      using Cons by simp
    also have "\<dots> = py_join sep g @ sep @ py_join sep (concat gs)"
      using Cons.IH Cons.prems by simp
    also have "\<dots> = py_join sep (g @ concat gs)"
      using join_append [OF ne] by simp
    finally show ?thesis by simp
  qed
qed

lemma wrap_loop_lines: "wrap_loop f m lines cur ws = lines @ wrap_loop f m [] cur ws"
proof (induction ws arbitrary: lines cur)
  case Nil
  then show ?case by simp
next
  case (Cons w ws)
  show ?case using Cons.IH [of "lines @ [cur]" w] Cons.IH [of "[cur]" w] Cons.IH [of lines]
    by simp
qed

lemma wrap_loop_groups:
  "g \<noteq> [] \<Longrightarrow> length g = 1 \<or> text_len (py_join '' '' g) f \<le> m \<Longrightarrow>
     \<exists>gs. [] \<notin> set gs \<and> concat gs = g @ ws \<and>
          wrap_loop f m [] (py_join '' '' g) ws = map (py_join '' '') gs \<and>
          (\<forall>h\<in>set gs. fits_or_lone f m h)"
proof (induction ws arbitrary: g)
  case Nil
  have "fits_or_lone f m g"
  proof (cases "text_len (py_join '' '' g) f \<le> m")
    case True
    then show ?thesis by (simp add: fits_or_lone_def)
  next
    case False
    with Nil.prems obtain w where "g = [w]" by (cases g) auto
    with False show ?thesis by (simp add: fits_or_lone_def)
  qed
  with Nil.prems show ?case by (intro exI [of _ "[g]"]) simp
next
  case (Cons w ws)
  have g: "fits_or_lone f m g"
  proof (cases "text_len (py_join '' '' g) f \<le> m")
    case True
    then show ?thesis by (simp add: fits_or_lone_def)
  next
    case False
    with Cons.prems obtain v where "g = [v]" by (cases g) auto
    with False show ?thesis by (simp add: fits_or_lone_def)
  qed
  show ?case
  proof (cases "text_len (py_join '' '' g @ '' '' @ w) f \<le> m")
    case True
    have j: "py_join '' '' (g @ [w]) = py_join '' '' g @ '' '' @ w"
      using join_snoc [OF Cons.prems(1)] .
    from True j have "length (g @ [w]) = 1 \<or> text_len (py_join '' '' (g @ [w])) f \<le> m"
      by simp
    from Cons.IH [OF _ this] obtain gs where
      "[] \<notin> set gs" "concat gs = (g @ [w]) @ ws"
      "wrap_loop f m [] (py_join '' '' (g @ [w])) ws = map (py_join '' '') gs"
      "\<forall>h\<in>set gs. fits_or_lone f m h" by auto
    with True j show ?thesis by (intro exI [of _ gs]) simp
  next
    case False
    from Cons.IH [of "[w]"] obtain gs where
      "[] \<notin> set gs" "concat gs = [w] @ ws"
      "wrap_loop f m [] (py_join '' '' [w]) ws = map (py_join '' '') gs"
      "\<forall>h\<in>set gs. fits_or_lone f m h" by auto
    with False g Cons.prems(1) show ?thesis
      using wrap_loop_lines [of f m "[py_join '' '' g]" w ws]
      by (intro exI [of _ "g # gs"]) simp
  qed
qed

lemma wrap_groups:
  assumes "py_split str \<noteq> []"
  shows "\<exists>gs. [] \<notin> set gs \<and> concat gs = py_split str \<and>
          wrap str f m = map (py_join '' '') gs \<and> (\<forall>h\<in>set gs. fits_or_lone f m h)"
proof -
  from assms obtain w ws where s: "py_split str = w # ws" by (cases "py_split str") auto
  from wrap_loop_groups [of "[w]" f m ws] s show ?thesis
    by (simp add: wrap_def)
qed

lemma wrap_empty: "py_split str = [] \<Longrightarrow> wrap str f m = [[]]"
  by (simp add: wrap_def)

lemma wrap_rejoin: "py_split (py_join '' '' (wrap str f m)) = py_split str"
proof (cases "py_split str = []")
  case True
  then show ?thesis by (simp add: wrap_empty) (simp add: py_split_def)
next
  case False
  from wrap_groups [OF False] obtain gs where
    gs: "[] \<notin> set gs" "concat gs = py_split str" "wrap str f m = map (py_join '' '') gs"
    by blast
  have "\<forall>w\<in>set (py_split str). w \<noteq> [] \<and> (\<forall>c\<in>set w. \<not> py_isspace c)"
    using split_from_words [of "[]" _ str] by (simp add: py_split_def)
  then have "split_from [] (py_join '' '' (py_split str)) = py_split str"
    by (rule split_from_join)
  with gs show ?thesis by (simp add: join_concat py_split_def)
qed


text \<open>
  C5. When the empty line fits (every font measures the empty string as 0, and a width is
  not negative), every line \<open>_wrap\<close> produces either measures at most \<open>max_px\<close>
  or is a single word of the input that is itself wider than \<open>max_px\<close>; and the
  lines are the words of the input, in order, cut into non-empty groups and joined with
  single spaces, so no word is split.
\<close>

theorem wrap_lines_within_width:
  assumes "text_len [] f \<le> max_px"
  shows "(\<forall>l\<in>set (wrap str f max_px).
            text_len l f \<le> max_px \<or> (l \<in> set (py_split str) \<and> max_px < text_len l f)) \<and>
         (py_split str \<noteq> [] \<longrightarrow>
            (\<exists>gs. [] \<notin> set gs \<and> concat gs = py_split str \<and>
                  wrap str f max_px = map (py_join '' '') gs \<and>
                  (\<forall>g\<in>set gs. fits_or_lone f max_px g)))"
proof (cases "py_split str = []")
  case True
  with assms show ?thesis by (simp add: wrap_empty)
next
  case False
  from wrap_groups [OF False] obtain gs where
    gs: "[] \<notin> set gs" "concat gs = py_split str" "wrap str f max_px = map (py_join '' '') gs"
        "\<forall>g\<in>set gs. fits_or_lone f max_px g"
    by blast
  have "text_len l f \<le> max_px \<or> (l \<in> set (py_split str) \<and> max_px < text_len l f)"
    if "l \<in> set (wrap str f max_px)" for l
  proof -
    from that gs(3) obtain g where g: "g \<in> set gs" "l = py_join '' '' g" by auto
    with gs(4) have "fits_or_lone f max_px g" by blast
    then show ?thesis
    proof (unfold fits_or_lone_def, elim disjE exE conjE)
      assume "text_len (py_join '' '' g) f \<le> max_px"
      with g show ?thesis by simp
    next
      fix w assume w: "g = [w]" "max_px < text_len w f"
      with g(1) gs(2) have "w \<in> set (py_split str)" by (metis concat.simps(2) in_set_conv_decomp list.set_intros(1) set_concat UN_I)
      with w g show ?thesis by simp
    qed
  qed
  with gs show ?thesis by blast
qed

theorem wrap_lines_within_width_witness:
  "text_len [] mono_font \<le> 70 \<and>
   wrap ''hello  big world a b abcdefghijk'' mono_font 70 =
     [''hello'', ''big'', ''world a'', ''b'', ''abcdefghijk''] \<and>
   list_all (\<lambda>l. text_len l mono_font \<le> 70 \<or>
                  (l \<in> set (py_split ''hello  big world a b abcdefghijk'') \<and>
                   70 < text_len l mono_font))
     (wrap ''hello  big world a b abcdefghijk'' mono_font 70)"
proof -
  have h: "text_len [] mono_font \<le> 70" by (simp add: text_len_def mono_font_def)
  have w: "wrap ''hello  big world a b abcdefghijk'' mono_font 70 =
     [''hello'', ''big'', ''world a'', ''b'', ''abcdefghijk'']"
    by (simp add: wrap_def py_split_def py_isspace_def text_len_def mono_font_def)
  from wrap_lines_within_width [OF h, of "''hello  big world a b abcdefghijk''"]
  have "list_all (\<lambda>l. text_len l mono_font \<le> 70 \<or>
                  (l \<in> set (py_split ''hello  big world a b abcdefghijk'') \<and>
                   70 < text_len l mono_font))
     (wrap ''hello  big world a b abcdefghijk'' mono_font 70)"
    unfolding list_all_iff by blast
  with h w show ?thesis by blast
qed

text \<open>
  C6. Joining the lines of \<open>_wrap\<close> with single spaces and splitting the result on
  white space gives back the words of the input.
\<close>

theorem wrap_join_split_roundtrip:
  "py_split (py_join '' '' (wrap str f max_px)) = py_split str"
  by (rule wrap_rejoin)

subsection \<open>Settings\<close>

lemma load_settings_lookup:
  "SETTINGS_FILE st = JsonObject data \<Longrightarrow>
     fst (load_settings st) k = (case data k of Some v \<Rightarrow> Some v | None \<Rightarrow> DEFAULT_SETTINGS k)"
  by (simp add: load_settings_def Let_def map_add_def split: option.split)

lemma load_settings_global: "APP_SETTINGS (snd (load_settings st)) = fst (load_settings st)"
  by (simp add: load_settings_def Let_def)

text \<open>
  C8, as amended. For a settings file holding a JSON object, the loaded configuration
  gives every key the file's value when the file has the key, recognised or not, and the
  default otherwise (no entry for a key that is neither in the file nor a default); the
  result is also what the global \<open>APP_SETTINGS\<close> becomes.
\<close>

theorem load_settings_merges_file:
  assumes "SETTINGS_FILE st = JsonObject data"
  shows "fst (load_settings st) k =
           (case data k of Some v \<Rightarrow> Some v | None \<Rightarrow> DEFAULT_SETTINGS k) \<and>
         APP_SETTINGS (snd (load_settings st)) = fst (load_settings st)"
  using load_settings_lookup [OF assms] load_settings_global by simp

theorem load_settings_merges_file_witness:
  "SETTINGS_FILE file_with_unknown_key =
     JsonObject (map_of [(''printer_ip'', JStr ''10.0.0.5''), (''debug'', JBool True)]) \<and>
   fst (load_settings file_with_unknown_key) ''mqtt_port'' = Some (JInt 8883) \<and>
   fst (load_settings file_with_unknown_key) ''printer_ip'' = Some (JStr ''10.0.0.5'')"
proof -
  have f: "SETTINGS_FILE file_with_unknown_key =
     JsonObject (map_of [(''printer_ip'', JStr ''10.0.0.5''), (''debug'', JBool True)])"
    by (simp add: file_with_unknown_key_def)
  from load_settings_merges_file [OF f, of "''mqtt_port''"]
  have a: "fst (load_settings file_with_unknown_key) ''mqtt_port'' = Some (JInt 8883)"
    by (simp add: DEFAULT_SETTINGS_def)
  from load_settings_merges_file [OF f, of "''printer_ip''"]
  have b: "fst (load_settings file_with_unknown_key) ''printer_ip'' = Some (JStr ''10.0.0.5'')"
    by simp
  from f a b show ?thesis by simp
qed

text \<open>
  The claim as written fails: \<open>debug\<close> is not a recognised key, the file has it, and
  the loaded configuration has it too.
\<close>

theorem load_settings_unknown_key_counterexample:
  "DEFAULT_SETTINGS ''debug'' = None \<and>
   fst (load_settings file_with_unknown_key) ''debug'' = Some (JBool True)"
  using load_settings_lookup [of file_with_unknown_key _ "''debug''"]
  by (simp add: file_with_unknown_key_def DEFAULT_SETTINGS_def)

lemma save_settings_memory:
  "APP_SETTINGS (snd (save_settings data outcome st)) = APP_SETTINGS st ++ data"
  by (cases outcome) (simp_all add: save_settings_def Let_def)

lemma save_settings_result: "fst (save_settings data outcome st) = (outcome = Written)"
  by (cases outcome) (simp_all add: save_settings_def Let_def)

lemma save_settings_file:
  "SETTINGS_FILE (snd (save_settings data outcome st)) =
     (case outcome of
        Written \<Rightarrow> JsonObject (APP_SETTINGS st ++ data)
      | DumpFailed \<Rightarrow> Unreadable
      | _ \<Rightarrow> SETTINGS_FILE st)"
  by (cases outcome) (simp_all add: save_settings_def Let_def)

text \<open>
  C10. Whatever the write does, the in-memory settings after \<open>save_settings\<close> are the
  old ones updated with the data, and a successful write stores exactly that merged
  mapping. When the write fails the result is \<open>False\<close>, the memory still holds the new
  values, and unless the file already held the merged mapping the file and the memory
  differ afterwards.
\<close>

theorem save_settings_not_rolled_back:
  "APP_SETTINGS (snd (save_settings data outcome st)) = APP_SETTINGS st ++ data \<and>
   (outcome = Written \<longrightarrow>
      fst (save_settings data outcome st) \<and>
      SETTINGS_FILE (snd (save_settings data outcome st)) = JsonObject (APP_SETTINGS st ++ data)) \<and>
   (outcome \<noteq> Written \<longrightarrow>
      \<not> fst (save_settings data outcome st) \<and>
      (SETTINGS_FILE st \<noteq> JsonObject (APP_SETTINGS st ++ data) \<longrightarrow>
         SETTINGS_FILE (snd (save_settings data outcome st)) \<noteq>
         JsonObject (APP_SETTINGS (snd (save_settings data outcome st)))))"
  by (cases outcome) (simp_all add: save_settings_memory save_settings_result save_settings_file)

theorem save_settings_not_rolled_back_witness:
  "PermissionDenied \<noteq> Written \<and>
   SETTINGS_FILE fresh_state \<noteq>
     JsonObject (APP_SETTINGS fresh_state ++ [''printer_ip'' \<mapsto> JStr ''10.0.0.5'']) \<and>
   \<not> fst (save_settings [''printer_ip'' \<mapsto> JStr ''10.0.0.5''] PermissionDenied fresh_state) \<and>
   APP_SETTINGS (snd (save_settings [''printer_ip'' \<mapsto> JStr ''10.0.0.5''] PermissionDenied
                        fresh_state)) ''printer_ip'' = Some (JStr ''10.0.0.5'') \<and>
   SETTINGS_FILE (snd (save_settings [''printer_ip'' \<mapsto> JStr ''10.0.0.5''] PermissionDenied
                         fresh_state)) \<noteq>
     JsonObject (APP_SETTINGS (snd (save_settings [''printer_ip'' \<mapsto> JStr ''10.0.0.5'']
                                      PermissionDenied fresh_state)))"
proof -
  let ?d = "[''printer_ip'' \<mapsto> JStr ''10.0.0.5'']"
  have o: "PermissionDenied \<noteq> Written" by simp
  have "DEFAULT_SETTINGS ''printer_ip'' \<noteq> (DEFAULT_SETTINGS ++ ?d) ''printer_ip''"
    by (simp add: DEFAULT_SETTINGS_def)
  then have "DEFAULT_SETTINGS \<noteq> DEFAULT_SETTINGS ++ ?d" by metis
  then have f: "SETTINGS_FILE fresh_state \<noteq> JsonObject (APP_SETTINGS fresh_state ++ ?d)"
    by (simp add: fresh_state_def)
  from save_settings_not_rolled_back [of ?d PermissionDenied fresh_state] o f
  have "APP_SETTINGS (snd (save_settings ?d PermissionDenied fresh_state)) =
          APP_SETTINGS fresh_state ++ ?d"
    and "\<not> fst (save_settings ?d PermissionDenied fresh_state)"
    and "SETTINGS_FILE (snd (save_settings ?d PermissionDenied fresh_state)) \<noteq>
           JsonObject (APP_SETTINGS (snd (save_settings ?d PermissionDenied fresh_state)))"
    by blast+
  with o f show ?thesis by simp
qed

subsection \<open>Protocol encoder\<close>

lemma invert_byte_not: "invert_byte b = NOT b"
proof -
  have m: "(255::int) = mask 8" by (simp add: mask_eq_exp_minus_1)
  show ?thesis
    unfolding invert_byte_def m
    by (rule bit_word_eqI) (simp add: bit_simps)
qed

lemma convert_1_bilevel: "img_mode img = Mode1 \<Longrightarrow> convert_1 lib img = img"
  by (simp add: convert_1_def)

lemma pack_byte_clear: "pack_byte (map (\<lambda>i. False) xs) = 0"
proof -
  have "foldl (\<lambda>acc b. 2 * acc + (if b then 1 else 0)) (0::byte) (map (\<lambda>i. False) xs) = 0"
    by (induction xs) simp_all
  then show ?thesis by (simp add: pack_byte_def)
qed

lemma row_byte_black: "row_byte (black_image w h) y bx = 0"
  by (simp add: row_byte_def black_image_def pack_byte_clear)

lemma concat_replicate_replicate: "concat (replicate h (replicate n x)) = replicate (h * n) x"
  by (induction h) (simp_all add: replicate_add)

lemma tobytes_black: "tobytes_raw (black_image w h) = replicate (h * ((w + 7) div 8)) 0"
proof -
  have "tobytes_raw (black_image w h) =
        concat (map (\<lambda>y. map (\<lambda>bx. 0) [0..<(w + 7) div 8]) [0..<h])"
  proof -
    have "img_width (black_image w h) = w" "img_height (black_image w h) = h"
      by (simp_all add: black_image_def)
    moreover have "row_byte (black_image w h) y = (\<lambda>bx. 0)" for y
      by (rule ext) (rule row_byte_black)
    ultimately show ?thesis by (simp add: tobytes_raw_def)
  qed
  also have "\<dots> = concat (replicate h (replicate ((w + 7) div 8) 0))"
    by (simp add: map_replicate_const)
  finally show ?thesis by (simp add: concat_replicate_replicate)
qed

lemma raster_bilevel:
  assumes "img_mode img = Mode1"
      and "(img_width img + 7) div 8 < 65536" and "img_height img < 65536"
  shows "pil_to_escpos_raster lib img =
           Inr ([0x1d, 0x76, 0x30, 0x00] @
                [of_nat (((img_width img + 7) div 8) mod 256),
                 of_nat (((img_width img + 7) div 8) div 256)] @
                [of_nat (img_height img mod 256), of_nat (img_height img div 256)] @
                map (\<lambda>b. NOT b) (tobytes_raw img))"
  using assms
  by (simp add: pil_to_escpos_raster_def convert_1_bilevel to_bytes_2_little_def Let_def
        invert_byte_not)

lemma replicate_4: "replicate 4 x = [x, x, x, x]"
  by (simp add: numeral_eq_Suc)

lemma replicate_8: "replicate 8 x = [x, x, x, x, x, x, x, x]"
  by (simp add: numeral_eq_Suc)

lemma raster_black_8x8:
  "pil_to_escpos_raster lib (black_image 8 8) =
     Inr ([0x1d, 0x76, 0x30, 0x00, 1, 0, 8, 0] @ replicate 8 0xFF)"
proof -
  have m: "img_mode (black_image 8 8) = Mode1" "img_width (black_image 8 8) = 8"
    "img_height (black_image 8 8) = 8"
    by (simp_all add: black_image_def)
  show ?thesis
    using raster_bilevel [of "black_image 8 8" lib] by (simp add: m tobytes_black)
qed

lemma raster_overflow:
  "65536 \<le> img_height img \<Longrightarrow> pil_to_escpos_raster lib img = Inl OverflowError"
  by (simp add: pil_to_escpos_raster_def Let_def to_bytes_2_little_def convert_1_def
      split: sum.split mode.split)

text \<open>
  C2, as amended. For every 1-bit image whose width in bytes \<open>ceil(w/8)\<close> and height
  are below 65536, \<open>pil_to_escpos_raster\<close> returns the command \<open>1D 76 30 00\<close>, the
  width in bytes and the height as little-endian 16-bit fields, and the packed bitmap with
  every byte inverted; the \<open>8 \<times> 8\<close> all-black image gives width-bytes 1, height 8 and
  eight payload bytes \<open>0xFF\<close>.
\<close>

theorem raster_header_and_inverted_payload:
  assumes "img_mode img = Mode1"
      and "(img_width img + 7) div 8 < 65536" and "img_height img < 65536"
  shows "pil_to_escpos_raster lib img =
           Inr ([0x1d, 0x76, 0x30, 0x00] @
                [of_nat (((img_width img + 7) div 8) mod 256),
                 of_nat (((img_width img + 7) div 8) div 256)] @
                [of_nat (img_height img mod 256), of_nat (img_height img div 256)] @
                map (\<lambda>b. NOT b) (tobytes_raw img)) \<and>
         pil_to_escpos_raster lib (black_image 8 8) =
           Inr ([0x1d, 0x76, 0x30, 0x00, 1, 0, 8, 0] @ replicate 8 0xFF)"
  using raster_bilevel [OF assms] raster_black_8x8 by simp

theorem raster_header_and_inverted_payload_witness:
  "img_mode (black_image 16 2) = Mode1 \<and>
   (img_width (black_image 16 2) + 7) div 8 < 65536 \<and>
   img_height (black_image 16 2) < 65536 \<and>
   pil_to_escpos_raster plain_pil (black_image 16 2) =
     Inr [0x1d, 0x76, 0x30, 0x00, 2, 0, 2, 0, 0xFF, 0xFF, 0xFF, 0xFF]"
proof -
  have m: "img_mode (black_image 16 2) = Mode1" "img_width (black_image 16 2) = 16"
    "img_height (black_image 16 2) = 2"
    by (simp_all add: black_image_def)
  have h: "(img_width (black_image 16 2) + 7) div 8 < 65536" "img_height (black_image 16 2) < 65536"
    by (simp_all add: m)
  from raster_header_and_inverted_payload [OF m(1) h, of plain_pil]
  have "pil_to_escpos_raster plain_pil (black_image 16 2) =
     Inr [0x1d, 0x76, 0x30, 0x00, 2, 0, 2, 0, 0xFF, 0xFF, 0xFF, 0xFF]"
    by (simp add: m tobytes_black replicate_4)
  with m(1) h show ?thesis by simp
qed

text \<open>
  The claim as written fails on its own example: the payload of the \<open>8 \<times> 8\<close>
  all-black image is eight bytes \<open>0xFF\<close>, not eight bytes \<open>0x00\<close>.
\<close>

theorem raster_black_payload_counterexample:
  "pil_to_escpos_raster plain_pil (black_image 8 8) =
     Inr ([0x1d, 0x76, 0x30, 0x00, 1, 0, 8, 0] @ replicate 8 0xFF) \<and>
   pil_to_escpos_raster plain_pil (black_image 8 8) \<noteq>
     Inr ([0x1d, 0x76, 0x30, 0x00, 1, 0, 8, 0] @ replicate 8 0x00)"
  by (simp add: raster_black_8x8 replicate_8)

subsection \<open>Receipt rasterizer\<close>

lemma wrap_loop_not_Nil: "wrap_loop f m lines cur ws \<noteq> []"
  by (induction ws arbitrary: lines cur) simp_all

lemma wrap_not_Nil: "wrap s f m \<noteq> []"
  by (simp add: wrap_def wrap_loop_not_Nil split: list.split)

lemma dropWhile_keeps: "x \<in> set xs \<Longrightarrow> \<not> P x \<Longrightarrow> x \<in> set (dropWhile P xs)"
  by (induction xs) auto

lemma strip_not_Nil: "py_strip s \<noteq> [] \<longleftrightarrow> (\<exists>c\<in>set s. \<not> py_isspace c)"
proof
  assume "py_strip s \<noteq> []"
  then obtain c where "c \<in> set (dropWhile py_isspace s)" "\<not> py_isspace c"
    by (auto simp: py_strip_def dropWhile_eq_Nil_conv)
  then show "\<exists>c\<in>set s. \<not> py_isspace c" by (blast dest: set_dropWhileD)
next
  assume "\<exists>c\<in>set s. \<not> py_isspace c"
  then obtain c where c: "c \<in> set s" "\<not> py_isspace c" by blast
  then have "c \<in> set (dropWhile py_isspace s)" by (simp add: dropWhile_keeps)
  with c(2) show "py_strip s \<noteq> []"
    by (auto simp: py_strip_def dropWhile_eq_Nil_conv)
qed

lemma strftime_not_Nil: "strftime_ymd_hm dt \<noteq> []"
  by (simp add: strftime_ymd_hm_def)

lemma receipt_width: "cv_width (render_receipt_image fs now title body_lines add_dt) = 576"
  by (simp add: render_receipt_image_def Let_def split_beta PRINT_WIDTH_PX_def)

lemma receipt_height:
  "cv_height (render_receipt_image fs now title body_lines add_dt) =
     max 100
       (28 +
        (if \<exists>c\<in>set title. \<not> py_isspace c
         then int (length (wrap (py_strip title) (FONT_TITLE fs) 540)) *
              line_height (FONT_TITLE fs) + 10
         else 0) +
        (if add_dt then line_height (FONT_TIME fs) else 0) +
        int (length (concat (map (\<lambda>line. wrap line (FONT_TEXT fs) 540) body_lines))) *
        line_height (FONT_TEXT fs) +
        40)"
proof -
  have t: "(title \<noteq> [] \<and> py_strip title \<noteq> []) = (\<exists>c\<in>set title. \<not> py_isspace c)"
    using strip_not_Nil [of title] by auto
  have w: "576 - 18 - 18 = (540::int)" by simp
  show ?thesis
    unfolding render_receipt_image_def Let_def split_beta t
      PRINT_WIDTH_PX_def MARGIN_T_def MARGIN_B_def MARGIN_L_def MARGIN_R_def w
    by (simp add: wrap_not_Nil strftime_not_Nil max.commute)
qed

text \<open>
  C7. The canvas of \<open>render_receipt_image\<close> is 576 px wide, and its height is the
  larger of 100 and the sum of the top margin 28, the title lines times the title line
  height plus the gap 10 when the title has a character that is not white space, the
  timestamp line height when the timestamp is requested, the wrapped body lines times the
  body line height, and the bottom margin 40.
\<close>

theorem receipt_canvas_size:
  "cv_width (render_receipt_image fs now title body_lines add_dt) = 576 \<and>
   cv_height (render_receipt_image fs now title body_lines add_dt) =
     max 100
       (28 +
        (if \<exists>c\<in>set title. \<not> py_isspace c
         then int (length (wrap (py_strip title) (FONT_TITLE fs) 540)) *
              line_height (FONT_TITLE fs) + 10
         else 0) +
        (if add_dt then line_height (FONT_TIME fs) else 0) +
        int (length (concat (map (\<lambda>line. wrap line (FONT_TEXT fs) 540) body_lines))) *
        line_height (FONT_TEXT fs) +
        40)"
  using receipt_width receipt_height by simp

theorem receipt_canvas_size_witness:
  "cv_width (render_receipt_image mono_fonts noon ''Hi'' [''a b'', []] True) = 576 \<and>
   cv_height (render_receipt_image mono_fonts noon ''Hi'' [''a b'', []] True) = 126 \<and>
   cv_height (render_receipt_image mono_fonts noon [] [] False) = 100"
proof -
  have s: "py_split ''Hi'' = [''Hi'']" "py_split ''a b'' = [''a'', ''b'']" "py_split [] = []"
    "py_strip ''Hi'' = ''Hi''"
    by (simp_all add: py_split_def py_strip_def py_isspace_def)
  have n: "\<exists>c\<in>set ''Hi''. \<not> py_isspace c" by (simp add: py_isspace_def)
  from receipt_canvas_size [of mono_fonts noon "''Hi''" "[''a b'', []]" True] n
  have a: "cv_width (render_receipt_image mono_fonts noon ''Hi'' [''a b'', []] True) = 576"
    and b: "cv_height (render_receipt_image mono_fonts noon ''Hi'' [''a b'', []] True) = 126"
    by (simp_all add: s wrap_def mono_fonts_def mono_font_def text_len_def)
  from receipt_canvas_size [of mono_fonts noon "[]" "[]" False]
  have c: "cv_height (render_receipt_image mono_fonts noon [] [] False) = 100"
    by simp
  from a b c show ?thesis by simp
qed

subsection \<open>Delivery\<close>

lemma convert_1_size:
  "img_width (convert_1 lib img) = img_width img" "img_height (convert_1 lib img) = img_height img"
  by (simp_all add: convert_1_def split: mode.split)

lemma raster_fits:
  assumes "(img_width img + 7) div 8 < 65536" and "img_height img < 65536"
  shows "\<exists>raster. pil_to_escpos_raster lib img = Inr raster"
  using assms
  by (simp add: pil_to_escpos_raster_def Let_def convert_1_size to_bytes_2_little_def)

lemma send_lan_skipped:
  "\<not> truthy (dict_get settings ''printer_ip'' (JStr [])) \<Longrightarrow>
     send_lan_image lib nw settings img do_cut tr = (Inr False, tr)"
  by (simp add: send_lan_image_def)

lemma send_mqtt_skipped:
  "\<not> truthy (dict_get settings ''mqtt_host'' (JStr [])) \<Longrightarrow>
     send_mqtt_image lib nw settings img do_cut tr = (Inr False, tr)"
  by (simp add: send_mqtt_image_def)

lemma send_mqtt_returns:
  assumes "png_base64 nw img = Inr b64"
      and "mqtt_client nw (truthy (dict_get settings ''mqtt_use_tls'' (JBool True)))
             (if truthy (dict_get settings ''mqtt_user'' (JStr []))
              then Some (dict_get settings ''mqtt_user'' (JStr []),
                         dict_get settings ''mqtt_pass'' (JStr []))
              else None) = None"
  shows "\<exists>b tr'. send_mqtt_image lib nw settings img do_cut tr = (Inr b, tr')"
  using assms by (auto simp: send_mqtt_image_def Let_def)

lemma send_mqtt_encoding_raises:
  assumes "truthy (dict_get settings ''mqtt_host'' (JStr []))" and "paho_installed nw"
      and "png_base64 nw img = Inl e"
  shows "send_mqtt_image lib nw settings img do_cut tr = (Inl e, tr)"
  using assms by (simp add: send_mqtt_image_def)

lemma send_lan_connect_raises:
  assumes "dict_get settings ''printer_ip'' (JStr []) = JStr addr" and "addr \<noteq> []"
      and "lan_connect nw addr = ConnectRaises e"
  shows "send_lan_image lib nw settings img do_cut tr =
           (Inl e, tr @ [SockConnect addr PRINTER_PORT])"
  using assms by (simp add: send_lan_image_def Let_def)

lemma send_lan_string_address:
  assumes "dict_get settings ''printer_ip'' (JStr []) = JStr addr"
      and "pil_to_escpos_raster lib img = Inr raster"
      and "\<forall>e. lan_connect nw addr \<noteq> ConnectRaises e"
  shows "\<exists>tr1. send_lan_image lib nw settings img do_cut tr =
                 (Inr (addr \<noteq> [] \<and> lan_connect nw addr = Connected \<and> lan_accepts nw), tr1) \<and>
               filter is_mqtt tr1 = filter is_mqtt tr"
  using assms
  by (cases "lan_connect nw addr") (simp_all add: send_lan_image_def Let_def)

lemma print_master_after_lan:
  "send_lan_image lib nw settings img do_cut tr = (Inr True, tr1) \<Longrightarrow>
     print_master lib nw settings img do_cut tr = (Inr ''OK (LAN)'', tr1)"
  by (simp add: print_master_def)

lemma print_master_after_cloud:
  "send_lan_image lib nw settings img do_cut tr = (Inr False, tr1) \<Longrightarrow>
   send_mqtt_image lib nw settings img do_cut tr1 = (Inr b, tr2) \<Longrightarrow>
     print_master lib nw settings img do_cut tr =
       (Inr (if b then ''OK (Cloud)'' else ''Failed (Check Settings)''), tr2)"
  by (simp add: print_master_def)

lemma print_master_overflow:
  "print_master plain_pil net_up lan_settings (black_image 8 65536) True [] =
     (Inl OverflowError, [SockConnect ''192.168.1.50'' 9100])"
proof -
  have "pil_to_escpos_raster plain_pil (black_image 8 65536) = Inl OverflowError"
    by (rule raster_overflow) (simp add: black_image_def)
  then show ?thesis
    by (simp add: print_master_def send_lan_image_def Let_def dict_get_def lan_settings_def
        net_up_def PRINTER_PORT_def)
qed

text \<open>
  Two more ways out of \<open>print_master\<close> that the handlers do not cover: an address
  that \<open>create_connection\<close> rejects with something other than \<open>OSError\<close>, and a
  failure of the image encoding that precedes the \<open>try\<close> of the cloud path.
\<close>

lemma print_master_bad_address:
  "print_master plain_pil net_bad_label bad_label_settings (black_image 8 8) True [] =
     (Inl (LibraryError ''encoding with idna codec failed''),
      [SockConnect ''192.168..1'' 9100])"
  by (simp add: print_master_def send_lan_image_def Let_def dict_get_def bad_label_settings_def
      net_bad_label_def net_up_def PRINTER_PORT_def)

lemma print_master_encoding_fails:
  "fst (print_master plain_pil net_png_fails lan_and_cloud_settings (black_image 8 8) True []) =
     Inl (LibraryError ''tile cannot extend outside image'')"
  by (simp add: print_master_def send_lan_image_def send_mqtt_image_def Let_def dict_get_def
      lan_and_cloud_settings_def lan_settings_def net_png_fails_def net_cloud_only_def
      net_up_def)

text \<open>
  C3, as amended. Take an image whose raster header fields fit in 16 bits, settings
  whose printer address is a string (empty when unset), a connection attempt that either
  opens or fails with \<open>OSError\<close>, and a cloud preparation (dithering and encoding the
  image, building and configuring the client) that does not raise. Then the local attempt
  returns a truth value, and it is true exactly when the address is set, the connection
  opens and the send succeeds. If it is true, \<open>print_master\<close> returns \<open>OK (LAN)\<close>
  with the trace of the local attempt, which has added no broker event. If it is false,
  the cloud attempt runs on the trace the local attempt left, returns a truth value, and
  \<open>print_master\<close> returns \<open>OK (Cloud)\<close> when that is true and
  \<open>Failed (Check Settings)\<close> otherwise. No exception leaves the call.
\<close>

theorem print_master_local_then_cloud:
  assumes "(img_width img + 7) div 8 < 65536" and "img_height img < 65536"
      and "dict_get settings ''printer_ip'' (JStr []) = JStr addr"
      and "\<forall>e. lan_connect nw addr \<noteq> ConnectRaises e"
      and "png_base64 nw img = Inr b64"
      and "mqtt_client nw (truthy (dict_get settings ''mqtt_use_tls'' (JBool True)))
             (if truthy (dict_get settings ''mqtt_user'' (JStr []))
              then Some (dict_get settings ''mqtt_user'' (JStr []),
                         dict_get settings ''mqtt_pass'' (JStr []))
              else None) = None"
  shows "\<exists>tr1. send_lan_image lib nw settings img do_cut tr =
                 (Inr (addr \<noteq> [] \<and> lan_connect nw addr = Connected \<and> lan_accepts nw), tr1) \<and>
           (if addr \<noteq> [] \<and> lan_connect nw addr = Connected \<and> lan_accepts nw
            then print_master lib nw settings img do_cut tr = (Inr ''OK (LAN)'', tr1) \<and>
                 filter is_mqtt tr1 = filter is_mqtt tr
            else (\<exists>b tr2. send_mqtt_image lib nw settings img do_cut tr1 = (Inr b, tr2) \<and>
                    print_master lib nw settings img do_cut tr =
                      (Inr (if b then ''OK (Cloud)'' else ''Failed (Check Settings)''), tr2)))"
proof -
  from raster_fits [OF assms(1,2)] obtain raster where
    "pil_to_escpos_raster lib img = Inr raster" by blast
  from send_lan_string_address [OF assms(3) this assms(4)] obtain tr1 where
    lan: "send_lan_image lib nw settings img do_cut tr =
            (Inr (addr \<noteq> [] \<and> lan_connect nw addr = Connected \<and> lan_accepts nw), tr1)"
    and quiet: "filter is_mqtt tr1 = filter is_mqtt tr" by blast
  show ?thesis
  proof (cases "addr \<noteq> [] \<and> lan_connect nw addr = Connected \<and> lan_accepts nw")
    case True
    with lan have "send_lan_image lib nw settings img do_cut tr = (Inr True, tr1)" by simp
    from print_master_after_lan [OF this] lan quiet True show ?thesis by auto
  next
    case False
    with lan have l: "send_lan_image lib nw settings img do_cut tr = (Inr False, tr1)" by simp
    from send_mqtt_returns [OF assms(5,6)] obtain b tr2 where
      m: "send_mqtt_image lib nw settings img do_cut tr1 = (Inr b, tr2)" by blast
    from print_master_after_cloud [OF l m] lan m False show ?thesis by auto
  qed
qed

theorem print_master_local_then_cloud_witness:
  "(img_width (black_image 8 8) + 7) div 8 < 65536 \<and> img_height (black_image 8 8) < 65536 \<and>
   dict_get lan_and_cloud_settings ''printer_ip'' (JStr []) = JStr ''192.168.1.50'' \<and>
   lan_connect net_cloud_only ''192.168.1.50'' = ConnectOSError \<and>
   lan_connect net_up ''192.168.1.50'' = Connected \<and>
   png_base64 net_cloud_only (black_image 8 8) = Inr ''iVBORw0KGgo='' \<and>
   png_base64 net_up (black_image 8 8) = Inr ''iVBORw0KGgo='' \<and>
   mqtt_client net_cloud_only True None = None \<and>
   fst (print_master plain_pil net_cloud_only lan_and_cloud_settings (black_image 8 8) True []) =
     Inr ''OK (Cloud)'' \<and>
   fst (print_master plain_pil net_up lan_and_cloud_settings (black_image 8 8) True []) =
     Inr ''OK (LAN)''"
proof -
  have h: "(img_width (black_image 8 8) + 7) div 8 < 65536" "img_height (black_image 8 8) < 65536"
    by (simp_all add: black_image_def)
  have ip: "dict_get lan_and_cloud_settings ''printer_ip'' (JStr []) = JStr ''192.168.1.50''"
    by (simp add: dict_get_def lan_and_cloud_settings_def lan_settings_def)
  have off: "lan_connect net_cloud_only ''192.168.1.50'' = ConnectOSError"
    and on: "lan_connect net_up ''192.168.1.50'' = Connected"
    and acc: "lan_accepts net_up"
    by (simp_all add: net_cloud_only_def net_up_def)
  have r1: "\<forall>e. lan_connect net_cloud_only ''192.168.1.50'' \<noteq> ConnectRaises e"
    and r2: "\<forall>e. lan_connect net_up ''192.168.1.50'' \<noteq> ConnectRaises e"
    by (simp_all add: off on)
  have e1: "png_base64 net_cloud_only (black_image 8 8) = Inr ''iVBORw0KGgo=''"
    and e2: "png_base64 net_up (black_image 8 8) = Inr ''iVBORw0KGgo=''"
    by (simp_all add: net_cloud_only_def net_up_def)
  have c1: "mqtt_client net_cloud_only tls cred = None"
    and c2: "mqtt_client net_up tls cred = None" for tls cred
    by (simp_all add: net_cloud_only_def net_up_def)
  have c: "fst (send_mqtt_image plain_pil net_cloud_only lan_and_cloud_settings (black_image 8 8)
                  True tr1) = Inr True" for tr1
    by (simp add: send_mqtt_image_def Let_def dict_get_def lan_and_cloud_settings_def
        lan_settings_def net_cloud_only_def net_up_def DEFAULT_SETTINGS_def)
  from print_master_local_then_cloud
         [OF h ip r1 e1 c1, of plain_pil True "[]"] off
  obtain tr1 b tr2 where
    m: "send_mqtt_image plain_pil net_cloud_only lan_and_cloud_settings (black_image 8 8)
          True tr1 = (Inr b, tr2)"
    and p: "print_master plain_pil net_cloud_only lan_and_cloud_settings (black_image 8 8)
          True [] = (Inr (if b then ''OK (Cloud)'' else ''Failed (Check Settings)''), tr2)"
    by auto
  from c [of tr1] m have "b" by simp
  with p have a: "fst (print_master plain_pil net_cloud_only lan_and_cloud_settings
                         (black_image 8 8) True []) = Inr ''OK (Cloud)''"
    by simp
  from print_master_local_then_cloud [OF h ip r2 e2 c2, of plain_pil True "[]"] on acc
  have b: "fst (print_master plain_pil net_up lan_and_cloud_settings (black_image 8 8)
                  True []) = Inr ''OK (LAN)''"
    by auto
  from h ip off on e1 e2 c1 [of True None] a b show ?thesis by simp
qed

text \<open>
  The claim as written fails: with a printer that answers, an image 65536 rows high
  makes the encoder's \<open>OverflowError\<close> leave \<open>print_master\<close>, after the socket was
  opened.
\<close>

theorem print_master_raises_counterexample:
  "print_master plain_pil net_up lan_settings (black_image 8 65536) True [] =
     (Inl OverflowError, [SockConnect ''192.168.1.50'' 9100])"
  by (rule print_master_overflow)

text \<open>
  C4. When neither a printer address nor a broker host is set, \<open>print_master\<close> returns
  \<open>Failed (Check Settings)\<close> and the trace of network events is unchanged: no socket
  and no broker connection was opened.
\<close>

theorem print_master_unconfigured:
  assumes "\<not> truthy (dict_get settings ''printer_ip'' (JStr []))"
      and "\<not> truthy (dict_get settings ''mqtt_host'' (JStr []))"
  shows "print_master lib nw settings img do_cut tr = (Inr ''Failed (Check Settings)'', tr)"
  using send_lan_skipped [OF assms(1)] send_mqtt_skipped [OF assms(2)]
  by (simp add: print_master_def)

theorem print_master_unconfigured_witness:
  "\<not> truthy (dict_get DEFAULT_SETTINGS ''printer_ip'' (JStr [])) \<and>
   \<not> truthy (dict_get DEFAULT_SETTINGS ''mqtt_host'' (JStr [])) \<and>
   print_master plain_pil net_up DEFAULT_SETTINGS (black_image 8 8) True [] =
     (Inr ''Failed (Check Settings)'', [])"
proof -
  have a: "\<not> truthy (dict_get DEFAULT_SETTINGS ''printer_ip'' (JStr []))"
    and b: "\<not> truthy (dict_get DEFAULT_SETTINGS ''mqtt_host'' (JStr []))"
    by (simp_all add: dict_get_def DEFAULT_SETTINGS_def)
  from print_master_unconfigured [OF a b, of plain_pil net_up "black_image 8 8" True "[]"] a b
  show ?thesis by simp
qed

subsection \<open>LaTeX engine\<close>

lemma suffix_bounded: "0 < n \<Longrightarrow> length (py_suffix n s) \<le> n"
  by (simp add: py_suffix_def)

lemma render_with_pdflatex_failed_run:
  assumes "pdf2image_importable env"
      and "command_run env (length (filter is_run tr)) = ExitNonzero log"
  shows "render_with_pdflatex lib env latex_code tr =
           (Inl (RuntimeError (''LaTeX Error. Check syntax.'' @ [CHR 0x0A] @
                   py_suffix 500 (case log of None \<Rightarrow> ''No log found.'' | Some l \<Rightarrow> l))),
            tr @ [MkDTemp,
                  WriteTex (tex_template
                    (if \<not> (py_in (bs ''begin{document}'') latex_code \<or>
                            py_in (bs ''section'') latex_code) \<and>
                        \<not> (py_in (bs ''begin{tikzpicture}'') latex_code \<or>
                           py_in ''$$'' latex_code \<or> py_in (bs ''['') latex_code)
                     then bs ''[ '' @ latex_code @ '' '' @ bs '']'' else latex_code)),
                  RunCmd [''pdflatex'', ''-interaction=nonstopmode'', ''ticket.tex''],
                  RmTree])"
  using assms by (simp add: render_with_pdflatex_def Let_def)

text \<open>
  C1, measured on the code. Whenever the compilation started by
  \<open>render_with_pdflatex\<close> exits with a non-zero status, whatever the log says, the
  function raises the error made of \<open>LaTeX Error. Check syntax.\<close> and at most the last
  500 characters of the log, and the commands it has run are that one compilation: no
  package manager, no second compilation.
\<close>

theorem render_with_pdflatex_single_run:
  assumes "pdf2image_importable env"
      and "command_run env (length (filter is_run tr)) = ExitNonzero log"
  shows "fst (render_with_pdflatex lib env latex_code tr) =
           Inl (RuntimeError (''LaTeX Error. Check syntax.'' @ [CHR 0x0A] @
                  py_suffix 500 (case log of None \<Rightarrow> ''No log found.'' | Some l \<Rightarrow> l))) \<and>
         length (py_suffix 500 (case log of None \<Rightarrow> ''No log found.'' | Some l \<Rightarrow> l)) \<le> 500 \<and>
         filter is_run (snd (render_with_pdflatex lib env latex_code tr)) =
           filter is_run tr @ [RunCmd [''pdflatex'', ''-interaction=nonstopmode'', ''ticket.tex'']]"
  using render_with_pdflatex_failed_run [OF assms, of lib latex_code]
  by (simp add: suffix_bounded)

theorem render_with_pdflatex_single_run_witness:
  "pdf2image_importable env_missing_package \<and>
   command_run env_missing_package (length (filter is_run [])) =
     ExitNonzero (Some missing_sty_log) \<and>
   command_run env_missing_package 1 = Exit0 \<and>
   fst (render_with_pdflatex plain_pil env_missing_package ''x'' []) =
     Inl (RuntimeError (''LaTeX Error. Check syntax.'' @ [CHR 0x0A] @ missing_sty_log)) \<and>
   filter is_run (snd (render_with_pdflatex plain_pil env_missing_package ''x'' [])) =
     [RunCmd [''pdflatex'', ''-interaction=nonstopmode'', ''ticket.tex'']]"
proof -
  have a: "pdf2image_importable env_missing_package"
    and b: "command_run env_missing_package (length (filter is_run [])) =
              ExitNonzero (Some missing_sty_log)"
    and c: "command_run env_missing_package 1 = Exit0"
    by (simp_all add: env_missing_package_def)
  have l: "py_suffix 500 missing_sty_log = missing_sty_log"
    by (simp add: py_suffix_def missing_sty_log_def)
  from render_with_pdflatex_single_run [OF a b, of plain_pil "''x''"] l a b c
  show ?thesis by simp
qed

lemma render_latex_image_caught:
  assumes "pdf2image_importable env" and "check_pdflatex env"
      and "render_with_pdflatex lib env latex_code tr = (Inl e, tr1)"
  shows "render_latex_image lib env fs now latex_code title add_dt tr =
           (Inr (Drawn (render_receipt_image fs now ''LaTeX Error''
                          [py_prefix 300 (exn_str e)] False)), tr1)"
  using assms by (simp add: render_latex_image_def Let_def)

lemma render_latex_image_returns:
  assumes "pdf2image_importable env" and "check_pdflatex env"
  shows "\<exists>p tr1. render_latex_image lib env fs now latex_code title add_dt tr = (Inr p, tr1)"
proof (cases "render_with_pdflatex lib env latex_code tr")
  case (Pair r tr1)
  show ?thesis
  proof (cases r)
    case (Inl e)
    with Pair render_latex_image_caught [OF assms] show ?thesis by blast
  next
    case (Inr latex_img)
    with Pair assms show ?thesis
      by (simp add: render_latex_image_def Let_def split_beta)
  qed
qed

lemma render_latex_image_undetected:
  "\<not> (pdf2image_importable env \<and> check_pdflatex env) \<Longrightarrow>
     render_latex_image lib env fs now latex_code title add_dt tr =
       (render_matplotlib_fallback lib env fs now latex_code title add_dt, tr)"
  by (auto simp: render_latex_image_def Let_def)

lemma fallback_cases:
  "render_matplotlib_fallback lib env fs now latex_code title add_dt =
     (if \<not> matplotlib_importable env
      then Inr (Drawn (render_receipt_image fs now ''Error''
                         [''No LaTeX Engine & no Matplotlib found.''] False))
      else case matplotlib_figure env latex_code of
             Inl e \<Rightarrow> Inl e
           | Inr img \<Rightarrow> Inr (Bitmap (render_composed_image lib img)))"
  by (simp add: render_matplotlib_fallback_def)

lemma render_latex_image_no_compiler:
  "fst (render_latex_image plain_pil env_no_compiler mono_fonts noon ''x'' [] False []) =
     Inr (Bitmap (render_composed_image plain_pil (black_image 8 8)))"
proof -
  have "\<not> (pdf2image_importable env_no_compiler \<and> check_pdflatex env_no_compiler)"
    by (simp add: env_no_compiler_def check_pdflatex_def)
  from render_latex_image_undetected [OF this] show ?thesis
    by (simp add: fallback_cases env_no_compiler_def env_missing_package_def)
qed

text \<open>
  C9, as amended. When \<open>pdf2image\<close> and the compiler are both detected,
  \<open>render_latex_image\<close> never raises: an exception \<open>e\<close> of the rendering gives the
  receipt titled \<open>LaTeX Error\<close> whose body is the first 300 characters of \<open>str(e)\<close>,
  which for a failed compilation is \<open>LaTeX Error. Check syntax.\<close> followed by the last
  500 characters of the log. When one of the two is not detected the result is that of
  \<open>render_matplotlib_fallback\<close>: the fixed receipt
  \<open>No LaTeX Engine & no Matplotlib found.\<close> without \<open>matplotlib\<close>, and otherwise what
  the figure of the source gives, scaled and dithered, not an error receipt.
\<close>

theorem render_latex_image_failure_paths:
  "(pdf2image_importable env \<and> check_pdflatex env \<longrightarrow>
      (\<exists>p tr1. render_latex_image lib env fs now latex_code title add_dt tr = (Inr p, tr1)) \<and>
      (\<forall>e tr1. render_with_pdflatex lib env latex_code tr = (Inl e, tr1) \<longrightarrow>
         render_latex_image lib env fs now latex_code title add_dt tr =
           (Inr (Drawn (render_receipt_image fs now ''LaTeX Error''
                          [py_prefix 300 (exn_str e)] False)), tr1)) \<and>
      (\<forall>log. command_run env (length (filter is_run tr)) = ExitNonzero log \<longrightarrow>
         fst (render_latex_image lib env fs now latex_code title add_dt tr) =
           Inr (Drawn (render_receipt_image fs now ''LaTeX Error''
                  [py_prefix 300 (''LaTeX Error. Check syntax.'' @ [CHR 0x0A] @
                     py_suffix 500 (case log of None \<Rightarrow> ''No log found.'' | Some l \<Rightarrow> l))]
                  False)))) \<and>
   (\<not> (pdf2image_importable env \<and> check_pdflatex env) \<longrightarrow>
      render_latex_image lib env fs now latex_code title add_dt tr =
        (if \<not> matplotlib_importable env
         then Inr (Drawn (render_receipt_image fs now ''Error''
                            [''No LaTeX Engine & no Matplotlib found.''] False))
         else case matplotlib_figure env latex_code of
                Inl e \<Rightarrow> Inl e
              | Inr img \<Rightarrow> Inr (Bitmap (render_composed_image lib img)),
         tr))"
proof (intro conjI impI allI)
  assume d: "pdf2image_importable env \<and> check_pdflatex env"
  then show "\<exists>p tr1. render_latex_image lib env fs now latex_code title add_dt tr = (Inr p, tr1)"
    using render_latex_image_returns by blast
  fix e tr1
  assume "render_with_pdflatex lib env latex_code tr = (Inl e, tr1)"
  with d show "render_latex_image lib env fs now latex_code title add_dt tr =
           (Inr (Drawn (render_receipt_image fs now ''LaTeX Error''
                          [py_prefix 300 (exn_str e)] False)), tr1)"
    using render_latex_image_caught by blast
next
  fix log
  assume d: "pdf2image_importable env \<and> check_pdflatex env"
    and r: "command_run env (length (filter is_run tr)) = ExitNonzero log"
  from d have i: "pdf2image_importable env" and c: "check_pdflatex env" by simp_all
  from render_latex_image_caught [OF i c render_with_pdflatex_failed_run [OF i r]]
  show "fst (render_latex_image lib env fs now latex_code title add_dt tr) =
           Inr (Drawn (render_receipt_image fs now ''LaTeX Error''
                  [py_prefix 300 (''LaTeX Error. Check syntax.'' @ [CHR 0x0A] @
                     py_suffix 500 (case log of None \<Rightarrow> ''No log found.'' | Some l \<Rightarrow> l))]
                  False))"
    by simp
next
  assume "\<not> (pdf2image_importable env \<and> check_pdflatex env)"
  from render_latex_image_undetected [OF this]
  show "render_latex_image lib env fs now latex_code title add_dt tr =
        (if \<not> matplotlib_importable env
         then Inr (Drawn (render_receipt_image fs now ''Error''
                            [''No LaTeX Engine & no Matplotlib found.''] False))
         else case matplotlib_figure env latex_code of
                Inl e \<Rightarrow> Inl e
              | Inr img \<Rightarrow> Inr (Bitmap (render_composed_image lib img)),
         tr)"
    by (simp add: fallback_cases)
qed

theorem render_latex_image_failure_paths_witness:
  "pdf2image_importable env_missing_package \<and> check_pdflatex env_missing_package \<and>
   command_run env_missing_package (length (filter is_run [])) =
     ExitNonzero (Some missing_sty_log) \<and>
   fst (render_latex_image plain_pil env_missing_package mono_fonts noon ''x'' [] False []) =
     Inr (Drawn (render_receipt_image mono_fonts noon ''LaTeX Error''
            [''LaTeX Error. Check syntax.'' @ [CHR 0x0A] @ missing_sty_log] False))"
proof -
  have a: "pdf2image_importable env_missing_package \<and> check_pdflatex env_missing_package"
    and b: "command_run env_missing_package (length (filter is_run [])) =
              ExitNonzero (Some missing_sty_log)"
    by (simp_all add: env_missing_package_def check_pdflatex_def)
  have l: "py_prefix 300 (''LaTeX Error. Check syntax.'' @ [CHR 0x0A] @
             py_suffix 500 missing_sty_log) =
           ''LaTeX Error. Check syntax.'' @ [CHR 0x0A] @ missing_sty_log"
    by (simp add: py_prefix_def py_suffix_def missing_sty_log_def)
  from render_latex_image_failure_paths
         [of env_missing_package plain_pil mono_fonts noon "''x''" "[]" False "[]"] a b
  have "fst (render_latex_image plain_pil env_missing_package mono_fonts noon ''x'' [] False []) =
     Inr (Drawn (render_receipt_image mono_fonts noon ''LaTeX Error''
            [py_prefix 300 (''LaTeX Error. Check syntax.'' @ [CHR 0x0A] @
               py_suffix 500 (case Some missing_sty_log of
                                None \<Rightarrow> ''No log found.'' | Some l \<Rightarrow> l))] False))"
    by blast
  with l a b show ?thesis by simp
qed

text \<open>
  The claim as written fails: with no compiler and \<open>matplotlib\<close> present the result is
  the dithered figure of the source, not an error receipt.
\<close>

theorem render_latex_image_no_compiler_counterexample:
  "\<not> check_pdflatex env_no_compiler \<and>
   fst (render_latex_image plain_pil env_no_compiler mono_fonts noon ''x'' [] False []) =
     Inr (Bitmap (render_composed_image plain_pil (black_image 8 8))) \<and>
   \<not> is_drawn (Bitmap (render_composed_image plain_pil (black_image 8 8)))"
  using render_latex_image_no_compiler
  by (simp add: env_no_compiler_def check_pdflatex_def)

end
